theory Spec2Isabelle
  imports Main
begin

section \<open>frugal-router: decorators, reflected metadata and the Router\<close>

text \<open>
  A shallow embedding of the routing library: the three decorators that write a
  controller class's reflected metadata (\<open>Controller\<close>, the method decorators made by
  \<open>defineRouteDecorator\<close>, \<open>HttpStatus\<close>), the \<open>HttpException\<close> class, and the
  \<open>Router\<close> class that turns the metadata into handlers on an express router.

  JavaScript values are a datatype, the express response is a record that logs what was
  sent through it, the console is a list of entries, and the \<open>Map\<close> of status codes
  lives in a store of objects because the decorator and the Router share it by reference.
  An awaited call is modelled by its settled outcome: a returned value or a thrown one.
\<close>

subsection \<open>JavaScript values\<close>

datatype js_value =
    JUndefined
  | JNull
  | JBool bool
  | JNum int
  | JStr string
  | JArr "js_value list"
  | JObj "(string \<times> js_value) list"

text \<open>
  What \<open>!response\<close> negates. Numbers are modelled as integers, so the falsy number is
  \<open>0\<close>; objects and arrays are always truthy.
\<close>

fun truthy :: "js_value \<Rightarrow> bool" where
  "truthy JUndefined = False"
| "truthy JNull = False"
| "truthy (JBool b) = b"
| "truthy (JNum n) = (n \<noteq> 0)"
| "truthy (JStr s) = (s \<noteq> [])"
| "truthy (JArr xs) = True"
| "truthy (JObj kvs) = True"

text \<open>
  \<open>a || b\<close> on an optional number: \<open>undefined\<close>, \<open>null\<close> and \<open>0\<close> give \<open>b\<close>.
\<close>

definition js_or :: "int option \<Rightarrow> int \<Rightarrow> int" where
  "js_or a b = (case a of None \<Rightarrow> b | Some n \<Rightarrow> if n \<noteq> 0 then n else b)"

text \<open>
  \<open>x + s\<close> where \<open>x\<close> is a string or \<open>undefined\<close> and \<open>s\<close> a string:
  \<open>undefined\<close> is converted to the text \<open>undefined\<close>.
\<close>

definition js_plus :: "string option \<Rightarrow> string \<Rightarrow> string" where
  "js_plus x s = (case x of None \<Rightarrow> ''undefined'' @ s | Some p \<Rightarrow> p @ s)"

text \<open>\<open>s.split(' ')\<close>: the pieces between single spaces, empty pieces kept.\<close>

fun split_space :: "string \<Rightarrow> string list" where
  "split_space [] = [[]]"
| "split_space (c # cs) =
     (if c = CHR '' '' then [] # split_space cs
      else (case split_space cs of [] \<Rightarrow> [[c]] | w # ws \<Rightarrow> (c # w) # ws))"

text \<open>
  \<open>${xs[1]}\<close> inside a template literal: the second element, or the text
  \<open>undefined\<close> when the array is shorter.
\<close>

fun template_index1 :: "string list \<Rightarrow> string" where
  "template_index1 (a # b # rest) = b"
| "template_index1 xs = ''undefined''"

subsection \<open>models/transport\<close>

text \<open>
  Modelled from the spec: the module \<open>models/transport\<close> (the enum \<open>EHttpMethod\<close>
  and the interface \<open>RouteDefinition\<close>) is imported by the sources but is not among
  them. The spec gives the methods as GET, PUT, POST, PATCH and DELETE; the fields of a
  \<open>RouteDefinition\<close> are the ones the method decorator writes.
\<close>

datatype EHttpMethod = GET | PUT | POST | PATCH | DELETE

text \<open>
  Modelled from the spec: the string values of the enum are declared in
  \<open>models/transport\<close> as well. The spec names the five methods; the Router uses the
  value as the name of a member of the express router
  (\<open>this.router[route.requestMethod]\<close>), and those members are the lower-case method
  names.
\<close>

fun EHttpMethod_value :: "EHttpMethod \<Rightarrow> string" where
  "EHttpMethod_value GET = ''get''"
| "EHttpMethod_value PUT = ''put''"
| "EHttpMethod_value POST = ''post''"
| "EHttpMethod_value PATCH = ''patch''"
| "EHttpMethod_value DELETE = ''delete''"

record RouteDefinition =
  requestMethod :: EHttpMethod
  path :: string
  methodName :: string

subsection \<open>HttpException\<close>

record HttpException =
  error :: string
  status :: int

definition getError :: "HttpException \<Rightarrow> js_value" where
  "getError this = JObj [(''error'', JStr (error this)), (''status'', JNum (status this))]"

text \<open>
  What a controller method can throw or reject with: an instance of \<open>HttpException\<close>
  (the \<open>instanceof\<close> test of the Router succeeds) or anything else.
\<close>

datatype thrown = IsHttpException HttpException | NotHttpException js_value

datatype outcome = Returns js_value | Throws thrown

subsection \<open>The express request and response\<close>

text \<open>
  Modelled from the spec: express is a collaborator outside the sources. The response
  offers "write JSON with status" and "write empty body with status" and exposes whether a
  response has been written (\<open>res.finished\<close>). The record logs every body sent through
  it, with the status code set at that moment; the serialisation of a JSON body is
  express's, so the body is the value handed to \<open>res.json\<close>. The operations only
  record the call: what express itself does with a status code it rejects, or with a second
  body on a response already finished, is not part of this model.
\<close>

datatype body = JsonBody js_value | EmptyBody

record Response =
  statusCode :: int
  finished :: bool
  sent :: "(int \<times> body) list"

definition res_status :: "int \<Rightarrow> Response \<Rightarrow> Response" where
  "res_status code res = res\<lparr>statusCode := code\<rparr>"

definition res_json :: "js_value \<Rightarrow> Response \<Rightarrow> Response" where
  "res_json v res = res\<lparr>finished := True, sent := sent res @ [(statusCode res, JsonBody v)]\<rparr>"

definition res_send :: "Response \<Rightarrow> Response" where
  "res_send res = res\<lparr>finished := True, sent := sent res @ [(statusCode res, EmptyBody)]\<rparr>"

definition fresh_response :: Response where
  "fresh_response = \<lparr>statusCode = 200, finished = False, sent = []\<rparr>"

record Request =
  req_method :: string
  req_path :: string
  req_params :: "(string \<times> string) list"

subsection \<open>Reflected metadata\<close>

text \<open>
  \<open>Reflect\<close> keeps, for every target (a class, named by its identity), the values
  defined under the keys \<open>prefix\<close>, \<open>routes\<close> and \<open>response_status_codes\<close>; a
  key never defined reads as \<open>undefined\<close> (\<open>None\<close>). The value under
  \<open>response_status_codes\<close> is a reference to a \<open>Map\<close> object: the objects are kept
  in \<open>map_objects\<close>, and \<open>next_ref\<close> is the next unused reference. The array
  under \<open>routes\<close> is kept by value: \<open>register\<close> walks it once, while it
  runs, and keeps the route objects, which nothing changes afterwards.
\<close>

record metadata =
  prefix :: "string option"
  routes :: "RouteDefinition list option"
  response_status_codes :: "nat option"

record Reflect =
  metadata_of :: "nat \<Rightarrow> metadata"
  map_objects :: "nat \<Rightarrow> (string \<rightharpoonup> int)"
  next_ref :: nat

definition no_metadata :: metadata where
  "no_metadata = \<lparr>prefix = None, routes = None, response_status_codes = None\<rparr>"

definition empty_Reflect :: Reflect where
  "empty_Reflect = \<lparr>metadata_of = (\<lambda>t. no_metadata), map_objects = (\<lambda>r. Map.empty), next_ref = 0\<rparr>"

definition defineMetadata :: "nat \<Rightarrow> (metadata \<Rightarrow> metadata) \<Rightarrow> Reflect \<Rightarrow> Reflect" where
  "defineMetadata target upd R = R\<lparr>metadata_of := (metadata_of R)(target := upd (metadata_of R target))\<rparr>"

subsection \<open>The decorators\<close>

text \<open>
  The class decorator \<open>Controller(prefix)\<close>, applied to the class \<open>target\<close>. The
  argument is optional and defaults to the empty string.
\<close>

definition Controller :: "string option \<Rightarrow> nat \<Rightarrow> Reflect \<Rightarrow> Reflect" where
  "Controller prefix_arg target R =
     (let p = (case prefix_arg of None \<Rightarrow> [] | Some s \<Rightarrow> s);
          R1 = defineMetadata target (\<lambda>m. m\<lparr>prefix := Some p\<rparr>) R
      in if routes (metadata_of R1 target) = None
         then defineMetadata target (\<lambda>m. m\<lparr>routes := Some []\<rparr>) R1
         else R1)"

text \<open>
  The method decorators; \<open>target\<close> is the class of the decorated method
  (\<open>target.constructor\<close> in the source, where the target is the prototype).
\<close>

definition defineRouteDecorator ::
  "EHttpMethod \<Rightarrow> string \<Rightarrow> nat \<Rightarrow> string \<Rightarrow> Reflect \<Rightarrow> Reflect" where
  "defineRouteDecorator request_method route_path target propertyKey R =
     (let R1 = (if routes (metadata_of R target) = None
                then defineMetadata target (\<lambda>m. m\<lparr>routes := Some []\<rparr>) R
                else R);
          rs = (case routes (metadata_of R1 target) of None \<Rightarrow> [] | Some xs \<Rightarrow> xs);
          rs' = rs @ [\<lparr>requestMethod = request_method, path = route_path, methodName = propertyKey\<rparr>]
      in defineMetadata target (\<lambda>m. m\<lparr>routes := Some rs'\<rparr>) R1)"

definition Get :: "string \<Rightarrow> nat \<Rightarrow> string \<Rightarrow> Reflect \<Rightarrow> Reflect" where
  "Get = defineRouteDecorator GET"

definition Put :: "string \<Rightarrow> nat \<Rightarrow> string \<Rightarrow> Reflect \<Rightarrow> Reflect" where
  "Put = defineRouteDecorator PUT"

definition Post :: "string \<Rightarrow> nat \<Rightarrow> string \<Rightarrow> Reflect \<Rightarrow> Reflect" where
  "Post = defineRouteDecorator POST"

definition Patch :: "string \<Rightarrow> nat \<Rightarrow> string \<Rightarrow> Reflect \<Rightarrow> Reflect" where
  "Patch = defineRouteDecorator PATCH"

definition Delete :: "string \<Rightarrow> nat \<Rightarrow> string \<Rightarrow> Reflect \<Rightarrow> Reflect" where
  "Delete = defineRouteDecorator DELETE"

text \<open>
  \<open>HttpStatus(code)\<close>: a new \<open>Map\<close> is created only when the class has none; an
  existing one is updated in place, and the metadata is re-defined with the same reference.
\<close>

definition HttpStatus :: "int \<Rightarrow> nat \<Rightarrow> string \<Rightarrow> Reflect \<Rightarrow> Reflect" where
  "HttpStatus code target propertyKey R =
     (let R1 = (if response_status_codes (metadata_of R target) = None
                then defineMetadata target (\<lambda>m. m\<lparr>response_status_codes := Some (next_ref R)\<rparr>)
                       (R\<lparr>map_objects := (map_objects R)(next_ref R := Map.empty),
                          next_ref := Suc (next_ref R)\<rparr>)
                else R)
      in case response_status_codes (metadata_of R1 target) of
           None \<Rightarrow> R1
         | Some statusCodes \<Rightarrow>
             defineMetadata target (\<lambda>m. m\<lparr>response_status_codes := Some statusCodes\<rparr>)
               (R1\<lparr>map_objects := (map_objects R1)
                  (statusCodes := (map_objects R1 statusCodes)(propertyKey \<mapsto> code))\<rparr>))"

subsection \<open>Controller classes and the world a handler runs in\<close>

text \<open>
  A controller class: its identity (the target of its metadata), its source text (what
  \<open>controller.toString()\<close> returns) and its methods by name. A method receives the
  request and the response; it may write to the response, and it settles with a returned
  value or a thrown one.
\<close>

type_synonym controller_method = "Request \<Rightarrow> Response \<Rightarrow> outcome \<times> Response"

record controller =
  class_id :: nat
  class_source :: string
  methods :: "string \<Rightarrow> controller_method option"

text \<open>\<open>new controller()\<close>: the instance carries the methods of the class.\<close>

definition new_instance :: "controller \<Rightarrow> (string \<Rightarrow> controller_method option)" where
  "new_instance c = methods c"

text \<open>
  \<open>await instance[name](req, res)\<close>. Calling a member that does not exist throws a
  \<open>TypeError\<close>, which is not an \<open>HttpException\<close>.
\<close>

definition invoke ::
  "(string \<Rightarrow> controller_method option) \<Rightarrow> string \<Rightarrow> Request \<Rightarrow> Response \<Rightarrow> outcome \<times> Response" where
  "invoke instance name req r =
     (case instance name of
        None \<Rightarrow> (Throws (NotHttpException (JStr ''TypeError'')), r)
      | Some f \<Rightarrow> f req r)"

datatype console_entry = Warn "string list" | Error "string list"

record world =
  reflect :: Reflect
  console :: "console_entry list"
  res :: Response

type_synonym handler = "Request \<Rightarrow> world \<Rightarrow> world"

subsection \<open>The Router\<close>

text \<open>
  Modelled from the spec: the express router is the collaborator's routing surface. It is
  a stack of layers in the order they were added: a route registered for a method and a
  path, or a handler mounted with \<open>use\<close> for every request.
\<close>

datatype layer = Route EHttpMethod string handler | Use handler

record Router =
  router :: "layer list"

definition new_Router :: Router where
  "new_Router = \<lparr>router = []\<rparr>"

definition controller_token :: "controller \<Rightarrow> string" where
  "controller_token c = template_index1 (split_space (class_source c))"

definition sendNoData :: "RouteDefinition \<Rightarrow> controller \<Rightarrow> world \<Rightarrow> world" where
  "sendNoData route c w =
     w\<lparr>console := console w @
          [Warn
            ['' * Warning - Method returned no response: '' @ controller_token c @ ''\<newline>'',
             ''* Route:                                 '' @
               js_plus (metadata.prefix (metadata_of (reflect w) (class_id c))) (path route) @ ''\<newline>'',
             ''* Controller method name:                '' @ methodName route @ ''\<newline>'',
             ''* HTTP method type:                      '' @
               EHttpMethod_value (requestMethod route) @ ''\<newline>'']],
       res := res_send (res_status 204 (res w))\<rparr>"

definition handleUnknownException :: "RouteDefinition \<Rightarrow> controller \<Rightarrow> world \<Rightarrow> world" where
  "handleUnknownException route c w =
     w\<lparr>console := console w @
          [Error
            ['' * Error - Unknown exception thrown: '' @ controller_token c @ ''\<newline>'',
             ''* Route:                    '' @
               js_plus (metadata.prefix (metadata_of (reflect w) (class_id c))) (path route) @ ''\<newline>'',
             ''* Controller method name:   '' @ methodName route @ ''\<newline>'',
             ''* HTTP method type:         '' @
               EHttpMethod_value (requestMethod route) @ ''\<newline>'']],
       res := res_json (JObj [(''error'', JStr ''Internal Server Error''), (''status'', JNum 500)])
                (res_status 500 (res w))\<rparr>"

definition notFoundHandler :: handler where
  "notFoundHandler req w =
     w\<lparr>res := res_json (JObj [(''error'', JStr ''Not Found''), (''status'', JNum 404)])
                (res_status 404 (res w))\<rparr>"

text \<open>
  \<open>statusCodes ? statusCodes.get(name) : null\<close>, where \<open>statusCodes\<close> is a
  reference to a \<open>Map\<close> or \<open>undefined\<close>, evaluated on the objects as they are now.
\<close>

definition statusCodes_get :: "Reflect \<Rightarrow> nat option \<Rightarrow> string \<Rightarrow> int option" where
  "statusCodes_get R statusCodes name =
     (case statusCodes of None \<Rightarrow> None | Some m \<Rightarrow> map_objects R m name)"

text \<open>
  The handler that \<open>register\<close> binds for one route. It closes over the controller, the
  instance, the route and \<open>statusCodes\<close>, which is the reference to the class's
  \<open>Map\<close> read at registration (or \<open>undefined\<close>); \<open>statusCodes.get\<close> reads the
  object behind the reference when the request is handled.
\<close>

definition route_handler ::
  "controller \<Rightarrow> (string \<Rightarrow> controller_method option) \<Rightarrow> nat option \<Rightarrow> RouteDefinition \<Rightarrow> handler" where
  "route_handler c instance statusCodes route req w =
     (case invoke instance (methodName route) req (res w) of
        (Returns response, r1) \<Rightarrow>
          (let w1 = w\<lparr>res := r1\<rparr> in
           if \<not> truthy response \<and> finished r1 then w1
           else if \<not> truthy response \<and> \<not> finished r1 then sendNoData route c w1
           else
             (let statusCode =
                    js_or (statusCodes_get (reflect w1) statusCodes (methodName route))
                          (if requestMethod route = POST then 201 else 200)
              in w1\<lparr>res := res_json response (res_status statusCode r1)\<rparr>))
      | (Throws err, r1) \<Rightarrow>
          (let w1 = w\<lparr>res := r1\<rparr> in
           case err of
             IsHttpException e \<Rightarrow>
               (let response = getError e
                in w1\<lparr>res := res_json response (res_status (status e) r1)\<rparr>)
           | NotHttpException x \<Rightarrow> handleUnknownException route c w1))"

text \<open>
  An error that leaves a call of the Router, by the name of its class. The only one the
  Router's own code can end with is the engine's \<open>TypeError\<close>.
\<close>

datatype js_error = JsError string

text \<open>
  \<open>register\<close> reads the three metadata values when it is called. \<open>routes.forEach\<close> on
  \<open>undefined\<close> throws a \<open>TypeError\<close> before anything is bound; otherwise every
  route is bound, in order, under its method and the path \<open>prefix + route.path\<close>.
\<close>

definition register :: "Reflect \<Rightarrow> controller \<Rightarrow> Router \<Rightarrow> js_error + Router" where
  "register R c this =
     (let instance = new_instance c;
          prefix = metadata.prefix (metadata_of R (class_id c));
          statusCodes = metadata.response_status_codes (metadata_of R (class_id c));
          routes = metadata.routes (metadata_of R (class_id c))
      in case routes of
           None \<Rightarrow> Inl (JsError ''TypeError'')
         | Some rs \<Rightarrow>
             Inr (foldl
                   (\<lambda>this1 route.
                      this1\<lparr>router := router this1 @
                        [Route (requestMethod route) (js_plus prefix (path route))
                           (route_handler c instance statusCodes route)]\<rparr>)
                   this rs))"

text \<open>
  \<open>middleware\<close> mounts the not-found handler and returns the express router; the
  pair is the returned router and the Router object after the call.
\<close>

definition middleware :: "Router \<Rightarrow> layer list \<times> Router" where
  "middleware this =
     (let this1 = this\<lparr>router := router this @ [Use notFoundHandler]\<rparr>
      in (router this1, this1))"

text \<open>
  Modelled from the spec: how the collaborator serves a request from the routing surface.
  The first layer that matches runs; a route matches by the collaborator's own rules for
  method and path pattern, which are the parameter \<open>matches\<close>; a handler mounted with
  \<open>use\<close> matches every request. None of the handlers of this library passes the
  request on, so the first match is the only handler that runs. A request no layer matches
  leaves the world as it is.
\<close>

fun handle :: "(EHttpMethod \<Rightarrow> string \<Rightarrow> Request \<Rightarrow> bool) \<Rightarrow> layer list \<Rightarrow> handler" where
  "handle matches [] req w = w"
| "handle matches (Route m p h # ls) req w =
     (if matches m p req then h req w else handle matches ls req w)"
| "handle matches (Use h # ls) req w = h req w"

text \<open>The requests that match some registered route of the surface.\<close>

fun matches_some_route :: "(EHttpMethod \<Rightarrow> string \<Rightarrow> Request \<Rightarrow> bool) \<Rightarrow> layer list \<Rightarrow> Request \<Rightarrow> bool" where
  "matches_some_route matches [] req = False"
| "matches_some_route matches (Route m p h # ls) req =
     (matches m p req \<or> matches_some_route matches ls req)"
| "matches_some_route matches (Use h # ls) req = matches_some_route matches ls req"

text \<open>
  The Router objects a program can build: a new one, then any calls of \<open>register\<close>
  that return and of \<open>middleware\<close>, with any metadata at each call.
\<close>

inductive assembled :: "Router \<Rightarrow> bool" where
  assembled_new: "assembled new_Router"
| assembled_register: "assembled this \<Longrightarrow> register R c this = Inr this1 \<Longrightarrow> assembled this1"
| assembled_middleware: "assembled this \<Longrightarrow> assembled (snd (middleware this))"

text \<open>Every handler mounted with \<open>use\<close> on the surface is the not-found handler.\<close>

fun uses_only_notFound :: "layer list \<Rightarrow> bool" where
  "uses_only_notFound [] = True"
| "uses_only_notFound (Route m p h # ls) = uses_only_notFound ls"
| "uses_only_notFound (Use h # ls) = (h = notFoundHandler \<and> uses_only_notFound ls)"

text \<open>
  A matcher for concrete runs: the method names agree and the path is the pattern itself
  (patterns with placeholders are not interpreted).
\<close>

definition exact_match :: "EHttpMethod \<Rightarrow> string \<Rightarrow> Request \<Rightarrow> bool" where
  "exact_match m p req = (req_method req = EHttpMethod_value m \<and> req_path req = p)"

fun layer_path :: "layer \<Rightarrow> string option" where
  "layer_path (Route m p h) = Some p"
| "layer_path (Use h) = None"

fun layer_method :: "layer \<Rightarrow> EHttpMethod option" where
  "layer_method (Route m p h) = Some m"
| "layer_method (Use h) = None"

subsection \<open>The application: DefaultController and the bootstrap\<close>

text \<open>
  \<open>controllers/DefaultController.ts\<close>. The class is target \<open>0\<close>. Of the
  class's source text only the piece after the first space is ever read, so the body is
  left out of \<open>class_source\<close>.
\<close>

definition indexAction :: controller_method where
  "indexAction req r = (Returns (JObj [(''hello'', JStr ''hi!'')]), r)"

definition idAction :: controller_method where
  "idAction req r =
     (Returns (JObj [(''id'', (case map_of (req_params req) ''id'' of
                                 None \<Rightarrow> JUndefined | Some s \<Rightarrow> JStr s))]), r)"

definition postAction :: controller_method where
  "postAction req r = (Throws (IsHttpException \<lparr>error = ''Forbidden'', status = 403\<rparr>), r)"

definition putAction :: controller_method where
  "putAction req r = (Throws (NotHttpException JUndefined), r)"

definition deleteAction :: controller_method where
  "deleteAction req r =
     (Returns JUndefined,
      res_json (JObj [(''message'',
        JStr ''Ignore the router and directly access the express response object'')]) r)"

definition patchAction :: controller_method where
  "patchAction req r = (Returns JUndefined, r)"

definition DefaultController :: controller where
  "DefaultController =
     \<lparr>class_id = 0,
      class_source = ''class DefaultController { }'',
      methods = map_of
        [(''indexAction'', indexAction), (''idAction'', idAction), (''postAction'', postAction),
         (''putAction'', putAction), (''deleteAction'', deleteAction),
         (''patchAction'', patchAction)]\<rparr>"

text \<open>
  The decorators of the class in the order they run: for each method from the one
  nearest to it upwards, the methods in the order they are declared, the class decorator
  last.
\<close>

definition DefaultController_decorators :: "(Reflect \<Rightarrow> Reflect) list" where
  "DefaultController_decorators =
     [HttpStatus 300 0 ''indexAction'', Get ''/'' 0 ''indexAction'',
      HttpStatus 200 0 ''idAction'', Get ''/:id'' 0 ''idAction'',
      Post ''/'' 0 ''postAction'',
      Put ''/'' 0 ''putAction'',
      Delete ''/'' 0 ''deleteAction'',
      Patch ''/'' 0 ''patchAction'',
      Controller (Some ''/api'') 0]"

definition decorate :: "(Reflect \<Rightarrow> Reflect) list \<Rightarrow> Reflect \<Rightarrow> Reflect" where
  "decorate ds R = foldl (\<lambda>R1 d. d R1) R ds"

text \<open>
  A second controller, target \<open>1\<close>, with the declarations DefaultController does not
  have: a status on a POST route, methods that return \<open>false\<close> and \<open>0\<close>, and a
  method that answers through the response and returns a value as well.
  \<^verbatim>\<open>
  @Controller('/probe')
  class ProbeController {
    @Post('/made') @HttpStatus(207) madeAction()  { return { made: true }; }
    @Get('/flag')  @HttpStatus(202) flagAction()  { return false; }
    @Get('/count')                  countAction() { return 0; }
    @Get('/both')                   bothAction(req, res) {
      res.json({ sent: 'directly' }); return { also: 'returned' }; }
  }
  \<close>
\<close>

definition madeAction :: controller_method where
  "madeAction req r = (Returns (JObj [(''made'', JBool True)]), r)"

definition flagAction :: controller_method where
  "flagAction req r = (Returns (JBool False), r)"

definition countAction :: controller_method where
  "countAction req r = (Returns (JNum 0), r)"

definition bothAction :: controller_method where
  "bothAction req r =
     (Returns (JObj [(''also'', JStr ''returned'')]),
      res_json (JObj [(''sent'', JStr ''directly'')]) r)"

definition ProbeController :: controller where
  "ProbeController =
     \<lparr>class_id = 1,
      class_source = ''class ProbeController { }'',
      methods = map_of
        [(''madeAction'', madeAction), (''flagAction'', flagAction),
         (''countAction'', countAction), (''bothAction'', bothAction)]\<rparr>"

definition ProbeController_decorators :: "(Reflect \<Rightarrow> Reflect) list" where
  "ProbeController_decorators =
     [HttpStatus 207 1 ''madeAction'', Post ''/made'' 1 ''madeAction'',
      HttpStatus 202 1 ''flagAction'', Get ''/flag'' 1 ''flagAction'',
      Get ''/count'' 1 ''countAction'',
      Get ''/both'' 1 ''bothAction'',
      Controller (Some ''/probe'') 1]"

text \<open>
  A third class, target \<open>2\<close>, that declares a route and has no class decorator.
  \<^verbatim>\<open>
  class BareController {
    @Get('/x') xAction() { return { ok: true }; }
  }
  \<close>
\<close>

definition xAction :: controller_method where
  "xAction req r = (Returns (JObj [(''ok'', JBool True)]), r)"

definition BareController :: controller where
  "BareController =
     \<lparr>class_id = 2,
      class_source = ''class BareController { }'',
      methods = map_of [(''xAction'', xAction)]\<rparr>"

definition BareController_decorators :: "(Reflect \<Rightarrow> Reflect) list" where
  "BareController_decorators = [Get ''/x'' 2 ''xAction'']"

text \<open>The metadata after each class has been declared, starting from none.\<close>

definition DefaultController_Reflect :: Reflect where
  "DefaultController_Reflect = decorate DefaultController_decorators empty_Reflect"

definition ProbeController_Reflect :: Reflect where
  "ProbeController_Reflect = decorate ProbeController_decorators empty_Reflect"

definition BareController_Reflect :: Reflect where
  "BareController_Reflect = decorate BareController_decorators empty_Reflect"

text \<open>
  The bootstrap of the application: a new Router, \<open>router.register(controller)\<close>, then
  \<open>app.use(router.middleware())\<close>. A registration that throws ends the bootstrap.
\<close>

definition bootstrap :: "Reflect \<Rightarrow> controller \<Rightarrow> js_error + layer list" where
  "bootstrap R c =
     (case register R c new_Router of
        Inl e \<Rightarrow> Inl e
      | Inr this \<Rightarrow> Inr (fst (middleware this)))"

text \<open>
  What the client of one request receives from the application: the bodies sent, each
  with its status, when the request arrives with metadata \<open>R\<close>, an empty console and a
  response nothing has been written to.
\<close>

definition new_world :: "Reflect \<Rightarrow> world" where
  "new_world R = \<lparr>reflect = R, console = [], res = fresh_response\<rparr>"

definition serve :: "js_error + layer list \<Rightarrow> Reflect \<Rightarrow> Request \<Rightarrow> js_error + world" where
  "serve app R req =
     (case app of
        Inl e \<Rightarrow> Inl e
      | Inr surface \<Rightarrow> Inr (handle exact_match surface req (new_world R)))"

definition request :: "EHttpMethod \<Rightarrow> string \<Rightarrow> Request" where
  "request m p = \<lparr>req_method = EHttpMethod_value m, req_path = p, req_params = []\<rparr>"

section \<open>Properties\<close>

subsection \<open>Shared facts\<close>

lemmas response_ops = res_status_def res_json_def res_send_def

lemma foldl_bind:
  "foldl (\<lambda>this1 route. this1\<lparr>router := router this1 @ [f route]\<rparr>) (t :: Router) rs
     = t\<lparr>router := router t @ map f rs\<rparr>"
  by (induction rs arbitrary: t) simp_all

text \<open>
  What \<open>register\<close> does, with the loop resolved: it throws when the class has no
  \<open>routes\<close> metadata, and otherwise appends one route layer per entry, in order.
\<close>

lemma register_layers:
  "register R c this =
     (case metadata.routes (metadata_of R (class_id c)) of
        None \<Rightarrow> Inl (JsError ''TypeError'')
      | Some rs \<Rightarrow>
          Inr (this\<lparr>router := router this @
            map (\<lambda>route. Route (requestMethod route)
                   (js_plus (metadata.prefix (metadata_of R (class_id c))) (path route))
                   (route_handler c (new_instance c)
                      (metadata.response_status_codes (metadata_of R (class_id c))) route)) rs\<rparr>))"
  by (simp add: register_def Let_def foldl_bind split: option.split)

lemma returned_truthy:
  assumes "invoke instance (methodName route) req (res w) = (Returns v, r1)" and "truthy v"
  shows "route_handler c instance statusCodes route req w =
     w\<lparr>res := res_json v (res_status
        (js_or (statusCodes_get (reflect w) statusCodes (methodName route))
               (if requestMethod route = POST then 201 else 200)) r1)\<rparr>"
  using assms by (simp add: route_handler_def Let_def)

lemma returned_falsy_unfinished:
  assumes "invoke instance (methodName route) req (res w) = (Returns v, r1)"
    and "\<not> truthy v" and "\<not> finished r1"
  shows "route_handler c instance statusCodes route req w = sendNoData route c (w\<lparr>res := r1\<rparr>)"
  using assms by (simp add: route_handler_def Let_def)

text \<open>
  The piece of the class's source text that the diagnostics print is the class name when
  the text has the form \<open>class Name ...\<close>.
\<close>

lemma split_space_word:
  "CHR '' '' \<notin> set w \<Longrightarrow> split_space (w @ CHR '' '' # rest) = w # split_space rest"
  by (induction w) auto

lemma controller_token_class:
  assumes "class_source c = ''class '' @ name @ CHR '' '' # rest" and "CHR '' '' \<notin> set name"
  shows "controller_token c = name"
proof -
  have "split_space (class_source c) = ''class'' # split_space (name @ CHR '' '' # rest)"
    using assms(1) split_space_word [of "''class''" "name @ CHR '' '' # rest"] by simp
  also have "\<dots> = ''class'' # name # split_space rest"
    using assms(2) by (simp add: split_space_word)
  finally show ?thesis by (simp add: controller_token_def)
qed

subsection \<open>The two example classes, evaluated\<close>

lemma DefaultController_metadata:
  "metadata_of DefaultController_Reflect (class_id DefaultController) =
     \<lparr>prefix = Some ''/api'',
      routes = Some
        [\<lparr>requestMethod = GET, path = ''/'', methodName = ''indexAction''\<rparr>,
         \<lparr>requestMethod = GET, path = ''/:id'', methodName = ''idAction''\<rparr>,
         \<lparr>requestMethod = POST, path = ''/'', methodName = ''postAction''\<rparr>,
         \<lparr>requestMethod = PUT, path = ''/'', methodName = ''putAction''\<rparr>,
         \<lparr>requestMethod = DELETE, path = ''/'', methodName = ''deleteAction''\<rparr>,
         \<lparr>requestMethod = PATCH, path = ''/'', methodName = ''patchAction''\<rparr>],
      response_status_codes = Some 0\<rparr>"
  by (simp add: DefaultController_def DefaultController_Reflect_def DefaultController_decorators_def
      decorate_def empty_Reflect_def no_metadata_def defineMetadata_def Controller_def
      defineRouteDecorator_def Get_def Put_def Post_def Patch_def Delete_def HttpStatus_def Let_def)

lemma DefaultController_statusCodes:
  "map_objects DefaultController_Reflect 0 = [''indexAction'' \<mapsto> 300, ''idAction'' \<mapsto> 200]"
  by (simp add: DefaultController_Reflect_def DefaultController_decorators_def decorate_def
      empty_Reflect_def no_metadata_def defineMetadata_def Controller_def
      defineRouteDecorator_def Get_def Put_def Post_def Patch_def Delete_def HttpStatus_def Let_def)

lemma ProbeController_metadata:
  "metadata_of ProbeController_Reflect (class_id ProbeController) =
     \<lparr>prefix = Some ''/probe'',
      routes = Some
        [\<lparr>requestMethod = POST, path = ''/made'', methodName = ''madeAction''\<rparr>,
         \<lparr>requestMethod = GET, path = ''/flag'', methodName = ''flagAction''\<rparr>,
         \<lparr>requestMethod = GET, path = ''/count'', methodName = ''countAction''\<rparr>,
         \<lparr>requestMethod = GET, path = ''/both'', methodName = ''bothAction''\<rparr>],
      response_status_codes = Some 0\<rparr>"
  by (simp add: ProbeController_def ProbeController_Reflect_def ProbeController_decorators_def
      decorate_def empty_Reflect_def no_metadata_def defineMetadata_def Controller_def
      defineRouteDecorator_def Get_def Put_def Post_def Patch_def Delete_def HttpStatus_def Let_def)

lemma ProbeController_statusCodes:
  "map_objects ProbeController_Reflect 0 =
     [''madeAction'' \<mapsto> 207, ''flagAction'' \<mapsto> 202]"
  by (simp add: ProbeController_Reflect_def ProbeController_decorators_def decorate_def
      empty_Reflect_def no_metadata_def defineMetadata_def Controller_def
      defineRouteDecorator_def Get_def Put_def Post_def Patch_def Delete_def HttpStatus_def Let_def)

lemma invoke_DefaultController:
  "invoke (new_instance DefaultController) ''indexAction'' = indexAction"
  "invoke (new_instance DefaultController) ''idAction'' = idAction"
  "invoke (new_instance DefaultController) ''postAction'' = postAction"
  "invoke (new_instance DefaultController) ''putAction'' = putAction"
  "invoke (new_instance DefaultController) ''deleteAction'' = deleteAction"
  "invoke (new_instance DefaultController) ''patchAction'' = patchAction"
  by (simp_all add: invoke_def new_instance_def DefaultController_def fun_eq_iff)

lemma invoke_ProbeController:
  "invoke (new_instance ProbeController) ''madeAction'' = madeAction"
  "invoke (new_instance ProbeController) ''flagAction'' = flagAction"
  "invoke (new_instance ProbeController) ''countAction'' = countAction"
  "invoke (new_instance ProbeController) ''bothAction'' = bothAction"
  by (simp_all add: invoke_def new_instance_def ProbeController_def fun_eq_iff)

lemma controller_tokens:
  "controller_token DefaultController = ''DefaultController''"
  "controller_token ProbeController = ''ProbeController''"
  by (simp_all add: controller_token_def DefaultController_def ProbeController_def)

lemmas serve_ops = serve_def bootstrap_def register_layers middleware_def new_Router_def
  js_plus_def exact_match_def request_def new_world_def fresh_response_def

lemmas handler_ops = statusCodes_get_def route_handler_def sendNoData_def js_or_def
  response_ops Let_def

subsection \<open>Status resolution\<close>

text \<open>
  C1 says that whenever the method returns a value and has not written the response, the
  status written is the one declared for the handler, or else 201 for POST and 200
  otherwise. The handler does that for \<open>madeAction\<close>, a POST route declared with
  status 207 that returns an object: the answer is 207, not 201. It does not for
  \<open>flagAction\<close>, declared with status 202, which returns the value \<open>false\<close>
  without touching the response: \<open>!response\<close> sends it down the path for a method
  that returned nothing, and the answer is 204 with an empty body, not 202 with the body
  \<open>false\<close>.
\<close>

theorem declared_status_lost_for_false:
  "statusCodes_get ProbeController_Reflect
       (metadata.response_status_codes (metadata_of ProbeController_Reflect (class_id ProbeController)))
       ''flagAction'' = Some 202
   \<and> invoke (new_instance ProbeController) ''flagAction'' (request GET ''/probe/flag'') fresh_response
      = (Returns (JBool False), fresh_response)
   \<and> map_sum id (\<lambda>w. sent (res w))
        (serve (bootstrap ProbeController_Reflect ProbeController) ProbeController_Reflect
           (request GET ''/probe/flag''))
      = Inr [(204, EmptyBody)]
   \<and> map_sum id (\<lambda>w. sent (res w))
        (serve (bootstrap ProbeController_Reflect ProbeController) ProbeController_Reflect
           (request POST ''/probe/made''))
      = Inr [(207, JsonBody (JObj [(''made'', JBool True)]))]"
  by (simp add: serve_ops handler_ops ProbeController_metadata ProbeController_statusCodes
      invoke_ProbeController flagAction_def madeAction_def)

subsection \<open>Registration\<close>




text \<open>
  For a class whose metadata has a prefix \<open>p\<close>, \<open>register\<close> binds the handler of
  every route entry, in order, under the entry's method and the path \<open>p @ path route\<close>:
  the two strings one after the other, nothing removed or added.
\<close>

lemma register_with_prefix:
  assumes "metadata.prefix (metadata_of R (class_id c)) = Some p"
    and "metadata.routes (metadata_of R (class_id c)) = Some rs"
  shows "register R c this =
     Inr (this\<lparr>router := router this @
       map (\<lambda>route. Route (requestMethod route) (p @ path route)
              (route_handler c (new_instance c)
                 (metadata.response_status_codes (metadata_of R (class_id c))) route)) rs\<rparr>)"
  using assms by (simp add: register_layers js_plus_def)

lemma register_DefaultController_paths:
  "map_sum id (\<lambda>this. map (\<lambda>l. (layer_method l, layer_path l)) (router this))
        (register DefaultController_Reflect DefaultController new_Router)
      = Inr [(Some GET, Some ''/api/''), (Some GET, Some ''/api/:id''), (Some POST, Some ''/api/''),
             (Some PUT, Some ''/api/''), (Some DELETE, Some ''/api/''), (Some PATCH, Some ''/api/'')]"
  by (simp add: register_layers DefaultController_metadata new_Router_def js_plus_def)

text \<open>
  C8 says that every registered route entry is bound at the controller's prefix followed
  by the entry's path. BareController declares the route \<open>GET /x\<close> and has no class
  decorator, so its prefix was never defined; the prefix of a class defaults to the empty
  string, which is what the class decorator called without an argument stores, and with it
  the route is bound at \<open>/x\<close>. Without the class decorator \<open>register\<close> reads
  \<open>undefined\<close> and binds the route at \<open>undefined/x\<close>: a request for
  \<open>GET /x\<close> is answered by the not-found handler, and the route answers at
  \<open>GET undefined/x\<close>.
\<close>

theorem undeclared_prefix_binds_undefined:
  "metadata_of BareController_Reflect (class_id BareController) =
     \<lparr>prefix = None,
      routes = Some [\<lparr>requestMethod = GET, path = ''/x'', methodName = ''xAction''\<rparr>],
      response_status_codes = None\<rparr>
   \<and> map_sum id (\<lambda>this. map (\<lambda>l. (layer_method l, layer_path l)) (router this))
        (register BareController_Reflect BareController new_Router)
      = Inr [(Some GET, Some ''undefined/x'')]
   \<and> map_sum id (\<lambda>w. sent (res w))
        (serve (bootstrap BareController_Reflect BareController) BareController_Reflect
           (request GET ''/x''))
      = Inr [(404, JsonBody (JObj [(''error'', JStr ''Not Found''), (''status'', JNum 404)]))]
   \<and> map_sum id (\<lambda>w. sent (res w))
        (serve (bootstrap BareController_Reflect BareController) BareController_Reflect
           (request GET ''undefined/x''))
      = Inr [(200, JsonBody (JObj [(''ok'', JBool True)]))]
   \<and> metadata.prefix
        (metadata_of (Controller None (class_id BareController) BareController_Reflect)
           (class_id BareController)) = Some []
   \<and> map_sum id (\<lambda>this. map (\<lambda>l. (layer_method l, layer_path l)) (router this))
        (register (Controller None (class_id BareController) BareController_Reflect)
           BareController new_Router)
      = Inr [(Some GET, Some ''/x'')]"
  by (simp add: serve_ops handler_ops notFoundHandler_def BareController_def
      BareController_Reflect_def BareController_decorators_def decorate_def empty_Reflect_def
      no_metadata_def defineMetadata_def Controller_def defineRouteDecorator_def Get_def
      invoke_def new_instance_def xAction_def)

subsection \<open>Thrown errors\<close>

text \<open>
  C3. When the controller method throws an \<open>HttpException\<close> with message
  \<open>error e\<close> and status \<open>status e\<close>, the handler sets that status and sends the
  object with the two fields \<open>error\<close> and \<open>status\<close> as JSON. Nothing else changes:
  one body is added to what was sent, and the console is left as it was.
\<close>

theorem declared_exception_response:
  assumes "invoke instance (methodName route) req (res w) = (Throws (IsHttpException e), r1)"
  shows "route_handler c instance statusCodes route req w =
     w\<lparr>res := r1\<lparr>statusCode := status e, finished := True,
          sent := sent r1 @
            [(status e, JsonBody (JObj [(''error'', JStr (error e)), (''status'', JNum (status e))]))]\<rparr>\<rparr>"
  using assms by (simp add: route_handler_def Let_def getError_def response_ops)

text \<open>\<open>postAction\<close> of DefaultController throws \<open>HttpException('Forbidden', 403)\<close>.\<close>

theorem declared_exception_response_witness:
  "invoke (new_instance DefaultController) ''postAction'' (request POST ''/api/'')
       (res (new_world DefaultController_Reflect))
     = (Throws (IsHttpException \<lparr>error = ''Forbidden'', status = 403\<rparr>), fresh_response)
   \<and> route_handler DefaultController (new_instance DefaultController) (Some 0)
        \<lparr>requestMethod = POST, path = ''/'', methodName = ''postAction''\<rparr>
        (request POST ''/api/'') (new_world DefaultController_Reflect)
      = \<lparr>reflect = DefaultController_Reflect, console = [],
         res = \<lparr>statusCode = 403, finished = True,
           sent = [(403, JsonBody (JObj [(''error'', JStr ''Forbidden''), (''status'', JNum 403)]))]\<rparr>\<rparr>"
  using declared_exception_response
    [of "new_instance DefaultController"
        "\<lparr>requestMethod = POST, path = ''/'', methodName = ''postAction''\<rparr>"
        "request POST ''/api/''" "new_world DefaultController_Reflect"
        "\<lparr>error = ''Forbidden'', status = 403\<rparr>" fresh_response DefaultController "Some 0"]
  by (simp add: invoke_DefaultController postAction_def new_world_def fresh_response_def)

text \<open>
  C7. When the controller method throws anything that is not an \<open>HttpException\<close>, the
  handler writes one entry to the error channel, made of the controller's name as printed
  from the class, the prefix now in the metadata followed by the route's path, the
  handler name and the HTTP method, and it sends status 500 with the fixed JSON object.
  The thrown value \<open>x\<close> occurs neither in the body nor in the entry.
\<close>

theorem unknown_exception_response:
  assumes "invoke instance (methodName route) req (res w) = (Throws (NotHttpException x), r1)"
  shows "route_handler c instance statusCodes route req w =
     w\<lparr>console := console w @
          [Error
            ['' * Error - Unknown exception thrown: '' @ controller_token c @ ''\<newline>'',
             ''* Route:                    '' @
               js_plus (metadata.prefix (metadata_of (reflect w) (class_id c))) (path route) @ ''\<newline>'',
             ''* Controller method name:   '' @ methodName route @ ''\<newline>'',
             ''* HTTP method type:         '' @
               EHttpMethod_value (requestMethod route) @ ''\<newline>'']],
       res := r1\<lparr>statusCode := 500, finished := True,
         sent := sent r1 @
           [(500, JsonBody (JObj [(''error'', JStr ''Internal Server Error''), (''status'', JNum 500)]))]\<rparr>\<rparr>"
  using assms by (simp add: route_handler_def Let_def handleUnknownException_def response_ops)

text \<open>\<open>putAction\<close> of DefaultController awaits a promise that rejects.\<close>

theorem unknown_exception_response_witness:
  "invoke (new_instance DefaultController) ''putAction'' (request PUT ''/api/'')
       (res (new_world DefaultController_Reflect))
     = (Throws (NotHttpException JUndefined), fresh_response)
   \<and> route_handler DefaultController (new_instance DefaultController) (Some 0)
        \<lparr>requestMethod = PUT, path = ''/'', methodName = ''putAction''\<rparr>
        (request PUT ''/api/'') (new_world DefaultController_Reflect)
      = \<lparr>reflect = DefaultController_Reflect,
         console =
           [Error
             ['' * Error - Unknown exception thrown: DefaultController\<newline>'',
              ''* Route:                    /api/\<newline>'',
              ''* Controller method name:   putAction\<newline>'',
              ''* HTTP method type:         put\<newline>'']],
         res = \<lparr>statusCode = 500, finished = True,
           sent = [(500, JsonBody (JObj [(''error'', JStr ''Internal Server Error''),
                                         (''status'', JNum 500)]))]\<rparr>\<rparr>"
  using unknown_exception_response
    [of "new_instance DefaultController"
        "\<lparr>requestMethod = PUT, path = ''/'', methodName = ''putAction''\<rparr>"
        "request PUT ''/api/''" "new_world DefaultController_Reflect" JUndefined fresh_response
        DefaultController "Some 0"]
  by (simp add: invoke_DefaultController putAction_def new_world_def fresh_response_def
      controller_tokens DefaultController_metadata js_plus_def)

subsection \<open>Returned values\<close>

text \<open>
  C4, as amended. When the controller method completes without raising, its result is
  falsy (it returned nothing, or \<open>null\<close>, \<open>false\<close>, \<open>0\<close> or the empty string) and
  the response is already finished, the handler does nothing further: the response stays
  exactly as the method left it and nothing is written to the console.
\<close>

theorem already_sent_without_value:
  assumes "invoke instance (methodName route) req (res w) = (Returns v, r1)"
    and "\<not> truthy v"
    and "finished r1"
  shows "route_handler c instance statusCodes route req w = w\<lparr>res := r1\<rparr>"
  using assms by (simp add: route_handler_def Let_def)

text \<open>\<open>deleteAction\<close> of DefaultController answers through \<open>res.json\<close> and returns nothing.\<close>

theorem already_sent_without_value_witness:
  "invoke (new_instance DefaultController) ''deleteAction'' (request DELETE ''/api/'')
       (res (new_world DefaultController_Reflect))
     = (Returns JUndefined,
        \<lparr>statusCode = 200, finished = True,
         sent = [(200, JsonBody (JObj [(''message'',
           JStr ''Ignore the router and directly access the express response object'')]))]\<rparr>)
   \<and> \<not> truthy JUndefined
   \<and> finished \<lparr>statusCode = 200, finished = True,
         sent = [(200, JsonBody (JObj [(''message'',
           JStr ''Ignore the router and directly access the express response object'')]))]\<rparr>
   \<and> route_handler DefaultController (new_instance DefaultController) (Some 0)
        \<lparr>requestMethod = DELETE, path = ''/'', methodName = ''deleteAction''\<rparr>
        (request DELETE ''/api/'') (new_world DefaultController_Reflect)
      = \<lparr>reflect = DefaultController_Reflect, console = [],
         res = \<lparr>statusCode = 200, finished = True,
           sent = [(200, JsonBody (JObj [(''message'',
             JStr ''Ignore the router and directly access the express response object'')]))]\<rparr>\<rparr>"
  using already_sent_without_value
    [of "new_instance DefaultController"
        "\<lparr>requestMethod = DELETE, path = ''/'', methodName = ''deleteAction''\<rparr>"
        "request DELETE ''/api/''" "new_world DefaultController_Reflect" JUndefined
        "\<lparr>statusCode = 200, finished = True,
         sent = [(200, JsonBody (JObj [(''message'',
           JStr ''Ignore the router and directly access the express response object'')]))]\<rparr>"
        DefaultController "Some 0"]
  by (simp add: invoke_DefaultController deleteAction_def new_world_def fresh_response_def
      response_ops)

text \<open>
  C4 as stated fails when the method has answered through the response and returns a
  value as well: \<open>bothAction\<close> leaves the response finished with one body sent, and the
  handler then sets status 200 and sends the returned object as a second body.
\<close>

theorem already_sent_with_value_counterexample:
  "invoke (new_instance ProbeController) ''bothAction'' (request GET ''/probe/both'') fresh_response
     = (Returns (JObj [(''also'', JStr ''returned'')]),
        \<lparr>statusCode = 200, finished = True,
         sent = [(200, JsonBody (JObj [(''sent'', JStr ''directly'')]))]\<rparr>)
   \<and> map_sum id (\<lambda>w. sent (res w))
        (serve (bootstrap ProbeController_Reflect ProbeController) ProbeController_Reflect
           (request GET ''/probe/both''))
      = Inr [(200, JsonBody (JObj [(''sent'', JStr ''directly'')])),
             (200, JsonBody (JObj [(''also'', JStr ''returned'')]))]"
  by (simp add: serve_ops handler_ops ProbeController_metadata ProbeController_statusCodes
      invoke_ProbeController bothAction_def)

text \<open>
  C5 says that a returned value is sent as the JSON body with the resolved status also when
  it is falsy. The handler does not do that: \<open>countAction\<close> is a GET route without a
  declared status that returns \<open>0\<close> and does not touch the response, and the client
  receives status 204 with an empty body, with the warning for a method that returned no
  response on the console, where the claim gives status 200 and the body \<open>0\<close>.
\<close>

theorem returned_zero_is_sent_as_no_content:
  "invoke (new_instance ProbeController) ''countAction'' (request GET ''/probe/count'') fresh_response
     = (Returns (JNum 0), fresh_response)
   \<and> map_sum id (\<lambda>w. (sent (res w), console w))
        (serve (bootstrap ProbeController_Reflect ProbeController) ProbeController_Reflect
           (request GET ''/probe/count''))
      = Inr ([(204, EmptyBody)],
             [Warn
               ['' * Warning - Method returned no response: ProbeController\<newline>'',
                ''* Route:                                 /probe/count\<newline>'',
                ''* Controller method name:                countAction\<newline>'',
                ''* HTTP method type:                      get\<newline>'']])"
  by (simp add: serve_ops handler_ops ProbeController_metadata ProbeController_statusCodes
      invoke_ProbeController countAction_def controller_tokens)

text \<open>
  C6. When the controller method completes without raising, returns no value and the
  response is not finished, the handler writes one warning to the console, made of the
  controller's name as printed from the class, the prefix now in the metadata followed by
  the route's path, the handler name and the HTTP method, and it sends status 204 with an
  empty body. Nothing else is sent or logged.
\<close>

theorem no_value_sends_no_content:
  assumes "invoke instance (methodName route) req (res w) = (Returns JUndefined, r1)"
    and "\<not> finished r1"
  shows "route_handler c instance statusCodes route req w =
     w\<lparr>console := console w @
          [Warn
            ['' * Warning - Method returned no response: '' @ controller_token c @ ''\<newline>'',
             ''* Route:                                 '' @
               js_plus (metadata.prefix (metadata_of (reflect w) (class_id c))) (path route) @ ''\<newline>'',
             ''* Controller method name:                '' @ methodName route @ ''\<newline>'',
             ''* HTTP method type:                      '' @
               EHttpMethod_value (requestMethod route) @ ''\<newline>'']],
       res := r1\<lparr>statusCode := 204, finished := True, sent := sent r1 @ [(204, EmptyBody)]\<rparr>\<rparr>"
  using assms by (simp add: route_handler_def Let_def sendNoData_def response_ops)

text \<open>\<open>patchAction\<close> of DefaultController has an empty body.\<close>

theorem no_value_sends_no_content_witness:
  "invoke (new_instance DefaultController) ''patchAction'' (request PATCH ''/api/'')
       (res (new_world DefaultController_Reflect))
     = (Returns JUndefined, fresh_response)
   \<and> \<not> finished fresh_response
   \<and> route_handler DefaultController (new_instance DefaultController) (Some 0)
        \<lparr>requestMethod = PATCH, path = ''/'', methodName = ''patchAction''\<rparr>
        (request PATCH ''/api/'') (new_world DefaultController_Reflect)
      = \<lparr>reflect = DefaultController_Reflect,
         console =
           [Warn
             ['' * Warning - Method returned no response: DefaultController\<newline>'',
              ''* Route:                                 /api/\<newline>'',
              ''* Controller method name:                patchAction\<newline>'',
              ''* HTTP method type:                      patch\<newline>'']],
         res = \<lparr>statusCode = 204, finished = True, sent = [(204, EmptyBody)]\<rparr>\<rparr>"
  using no_value_sends_no_content
    [of "new_instance DefaultController"
        "\<lparr>requestMethod = PATCH, path = ''/'', methodName = ''patchAction''\<rparr>"
        "request PATCH ''/api/''" "new_world DefaultController_Reflect" fresh_response
        DefaultController "Some 0"]
  by (simp add: invoke_DefaultController patchAction_def new_world_def fresh_response_def
      controller_tokens DefaultController_metadata js_plus_def)

subsection \<open>The not-found handler\<close>

lemma uses_only_notFound_append:
  "uses_only_notFound (xs @ ys) = (uses_only_notFound xs \<and> uses_only_notFound ys)"
  by (induction xs rule: uses_only_notFound.induct) simp_all

lemma uses_only_notFound_routes:
  "uses_only_notFound (map (\<lambda>route. Route (m route) (p route) (h route)) rs)"
  by (induction rs) simp_all

lemma assembled_uses_only_notFound:
  "assembled this \<Longrightarrow> uses_only_notFound (router this)"
proof (induction rule: assembled.induct)
  case assembled_new
  show ?case by (simp add: new_Router_def)
next
  case (assembled_register this R c this1)
  then show ?case
    by (auto simp: register_layers uses_only_notFound_append uses_only_notFound_routes
        split: option.splits)
next
  case (assembled_middleware this)
  then show ?case by (simp add: middleware_def uses_only_notFound_append)
qed

lemma handle_unmatched:
  "uses_only_notFound ls \<Longrightarrow> \<not> matches_some_route matches ls req \<Longrightarrow>
     handle matches (ls @ [Use notFoundHandler]) req w = notFoundHandler req w"
  by (induction matches ls req w rule: handle.induct) simp_all

lemma register_DefaultController:
  "register DefaultController_Reflect DefaultController new_Router
     = Inr (projr (register DefaultController_Reflect DefaultController new_Router))"
  by (simp add: register_layers DefaultController_metadata)

text \<open>
  C9. \<open>middleware\<close> returns the Router's own surface with the not-found handler added
  at the end. For a Router built by any calls of \<open>register\<close> and \<open>middleware\<close>, a
  request that matches none of the registered routes, whatever the collaborator's matching
  rule is, gets status 404 and the fixed JSON object, and nothing else.
\<close>

theorem unmatched_request_gets_404:
  assumes "assembled this"
    and "\<not> matches_some_route matches (router this) req"
  shows "fst (middleware this) = router this @ [Use notFoundHandler]
     \<and> router (snd (middleware this)) = fst (middleware this)
     \<and> handle matches (fst (middleware this)) req w =
         w\<lparr>res := (res w)\<lparr>statusCode := 404, finished := True,
           sent := sent (res w) @
             [(404, JsonBody (JObj [(''error'', JStr ''Not Found''), (''status'', JNum 404)]))]\<rparr>\<rparr>"
proof -
  have "uses_only_notFound (router this)"
    using assms(1) by (rule assembled_uses_only_notFound)
  then have "handle matches (router this @ [Use notFoundHandler]) req w = notFoundHandler req w"
    using assms(2) by (rule handle_unmatched)
  then show ?thesis
    by (simp add: middleware_def notFoundHandler_def response_ops)
qed

text \<open>DefaultController registered, and a DELETE request for \<open>/nothing\<close>.\<close>

theorem unmatched_request_gets_404_witness:
  "assembled (projr (register DefaultController_Reflect DefaultController new_Router))
   \<and> \<not> matches_some_route exact_match
        (router (projr (register DefaultController_Reflect DefaultController new_Router)))
        (request DELETE ''/nothing'')
   \<and> handle exact_match
        (fst (middleware (projr (register DefaultController_Reflect DefaultController new_Router))))
        (request DELETE ''/nothing'') (new_world DefaultController_Reflect)
      = \<lparr>reflect = DefaultController_Reflect, console = [],
         res = \<lparr>statusCode = 404, finished = True,
           sent = [(404, JsonBody (JObj [(''error'', JStr ''Not Found''), (''status'', JNum 404)]))]\<rparr>\<rparr>"
proof -
  let ?r = "projr (register DefaultController_Reflect DefaultController new_Router)"
  have a: "assembled ?r"
    using assembled_new register_DefaultController by (rule assembled_register)
  have b: "\<not> matches_some_route exact_match (router ?r) (request DELETE ''/nothing'')"
    by (simp add: register_layers DefaultController_metadata new_Router_def js_plus_def
        exact_match_def request_def)
  show ?thesis
    using a b unmatched_request_gets_404 [OF a b, of "new_world DefaultController_Reflect"]
    by (simp add: new_world_def fresh_response_def middleware_def)
qed

subsection \<open>Status declarations after registration\<close>

lemma HttpStatus_existing_map:
  assumes "metadata.response_status_codes (metadata_of R t) = Some m"
  shows "map_objects (HttpStatus code t name R) m name = Some code"
  using assms by (simp add: HttpStatus_def defineMetadata_def Let_def)

text \<open>
  C10, as amended. What \<open>register\<close> reads for the status codes is the reference to
  the class's \<open>Map\<close>, and the bound handlers look the handler name up in that object
  at every request. Let \<open>R\<close> be the metadata at
  registration and let \<open>HttpStatus code\<close> (with \<open>code\<close> not \<open>0\<close>) be applied to
  the class for a handler name afterwards. When the class already had status codes at
  registration, the handler bound for that name answers a returned truthy value with
  \<open>code\<close> from then on. Only when the class had no status codes at registration does
  the later declaration change nothing: the handler still answers with 201 for POST and
  200 otherwise.
\<close>

theorem later_status_declaration:
  assumes "invoke (new_instance c) (methodName route) req (res w) = (Returns v, r1)"
    and "truthy v"
    and "code \<noteq> 0"
    and "reflect w = HttpStatus code (class_id c) (methodName route) R"
  shows "sent (res (route_handler c (new_instance c)
                 (metadata.response_status_codes (metadata_of R (class_id c))) route req w))
     = sent r1 @
         [(if metadata.response_status_codes (metadata_of R (class_id c)) = None
           then (if requestMethod route = POST then 201 else 200)
           else code,
           JsonBody v)]"
proof (cases "metadata.response_status_codes (metadata_of R (class_id c))")
  case None
  with assms(1,2) show ?thesis
    by (simp add: returned_truthy statusCodes_get_def js_or_def response_ops)
next
  case (Some m)
  have "statusCodes_get (reflect w) (Some m) (methodName route) = Some code"
    using Some assms(4) by (simp add: statusCodes_get_def HttpStatus_existing_map)
  with Some assms(1,2,3) show ?thesis
    by (simp add: returned_truthy js_or_def response_ops)
qed

text \<open>
  DefaultController, registered with status 300 declared for \<open>indexAction\<close>, then
  \<open>HttpStatus(404)\<close> applied to \<open>indexAction\<close>.
\<close>

theorem later_status_declaration_witness:
  "invoke (new_instance DefaultController) ''indexAction'' (request GET ''/api/'')
       (res (new_world (HttpStatus 404 (class_id DefaultController) ''indexAction'' DefaultController_Reflect)))
     = (Returns (JObj [(''hello'', JStr ''hi!'')]), fresh_response)
   \<and> truthy (JObj [(''hello'', JStr ''hi!'')])
   \<and> (404 :: int) \<noteq> 0
   \<and> metadata.response_status_codes (metadata_of DefaultController_Reflect (class_id DefaultController)) = Some 0
   \<and> sent (res (route_handler DefaultController (new_instance DefaultController)
        (metadata.response_status_codes (metadata_of DefaultController_Reflect (class_id DefaultController)))
        \<lparr>requestMethod = GET, path = ''/'', methodName = ''indexAction''\<rparr>
        (request GET ''/api/'')
        (new_world (HttpStatus 404 (class_id DefaultController) ''indexAction'' DefaultController_Reflect))))
      = [(404, JsonBody (JObj [(''hello'', JStr ''hi!'')]))]"
  using later_status_declaration
    [of DefaultController
        "\<lparr>requestMethod = GET, path = ''/'', methodName = ''indexAction''\<rparr>"
        "request GET ''/api/''"
        "new_world (HttpStatus 404 (class_id DefaultController) ''indexAction'' DefaultController_Reflect)"
        "JObj [(''hello'', JStr ''hi!'')]" fresh_response 404 DefaultController_Reflect]
  by (simp add: invoke_DefaultController indexAction_def new_world_def fresh_response_def
      DefaultController_metadata)

text \<open>
  C10 as stated fails on the application itself: the same bootstrapped surface answers
  \<open>GET /api/\<close> with 300 under the metadata it was registered with, and with 404 once
  \<open>HttpStatus(404)\<close> has been applied to \<open>indexAction\<close> after the registration.
\<close>

theorem later_status_declaration_counterexample:
  "map_sum id (\<lambda>w. sent (res w))
      (serve (bootstrap DefaultController_Reflect DefaultController) DefaultController_Reflect
         (request GET ''/api/''))
     = Inr [(300, JsonBody (JObj [(''hello'', JStr ''hi!'')]))]
   \<and> map_sum id (\<lambda>w. sent (res w))
      (serve (bootstrap DefaultController_Reflect DefaultController)
         (HttpStatus 404 (class_id DefaultController) ''indexAction'' DefaultController_Reflect)
         (request GET ''/api/''))
     = Inr [(404, JsonBody (JObj [(''hello'', JStr ''hi!'')]))]"
  by (simp add: serve_ops handler_ops DefaultController_metadata DefaultController_statusCodes
      invoke_DefaultController indexAction_def HttpStatus_def defineMetadata_def)

end
